theory Spec2Isabelle
  imports Complex_Main "HOL-Library.Multiset"
begin

section \<open>Devices of the EV3 MicroPython library used by the two programs\<close>

text \<open>
  Both programs import their device classes from the \<^verbatim>\<open>pybricks\<close> library. The library
  is not part of the repository; the types below hold what the programs pass to it and
  what they read back from it.
\<close>

text \<open>\<^verbatim>\<open>pybricks.parameters.Button\<close>: every button the library can report.\<close>

datatype Button =
  LEFT_DOWN | DOWN | RIGHT_DOWN | LEFT | CENTER | RIGHT | LEFT_UP | UP | BEACON | RIGHT_UP

text \<open>\<^verbatim>\<open>pybricks.parameters.Port\<close> and \<^verbatim>\<open>pybricks.parameters.Direction\<close>.\<close>

datatype Port = Port_A | Port_B | Port_C | Port_D | Port_S1 | Port_S2 | Port_S3 | Port_S4

datatype Direction = CLOCKWISE | COUNTERCLOCKWISE

text \<open>
  Exceptions are values. \<open>TypeError\<close> is what a call raises when its arguments do not fit
  the parameters of the function; \<open>OSError\<close> stands for a fault of the hardware that a
  device call lets through.
\<close>

datatype error = TypeError | OSError

text \<open>
  What a \<^verbatim>\<open>DriveBase\<close> receives: \<^verbatim>\<open>drive(speed, turn_rate)\<close> or \<^verbatim>\<open>stop()\<close>.
  Speeds are in mm/s, turn rates in deg/s.
\<close>

datatype DriveCommand = DriveCmd real real | StopCmd

record Motor =
  port :: Port
  positive_direction :: Direction

text \<open>
  A \<^verbatim>\<open>DriveBase\<close> keeps the arguments of its constructor; \<open>commands\<close> is the sequence of
  commands it has received so far, oldest first.
\<close>

record DriveBase =
  left_motor :: Motor
  right_motor :: Motor
  wheel_diameter :: real
  axle_track :: real
  commands :: "DriveCommand list"

definition DriveBase_drive :: "DriveBase \<Rightarrow> real \<Rightarrow> real \<Rightarrow> DriveBase" where
  "DriveBase_drive d speed turn_rate = d\<lparr>commands := commands d @ [DriveCmd speed turn_rate]\<rparr>"

definition DriveBase_stop :: "DriveBase \<Rightarrow> DriveBase" where
  "DriveBase_stop d = d\<lparr>commands := commands d @ [StopCmd]\<rparr>"

text \<open>
  An \<^verbatim>\<open>InfraredSensor\<close>: \<open>buttons s channel\<close> is what the call
  \<^verbatim>\<open>s.buttons(channel=channel)\<close> gives at this instant, the list of buttons held on the
  remote of that channel, or the fault the read raises.
\<close>

record InfraredSensor =
  sensor_port :: Port
  buttons :: "int \<Rightarrow> error + Button list"

section \<open>The beacon driver\<close>

text \<open>
  The attributes that \<^verbatim>\<open>IRBeaconDriverMixin.__init__\<close> and
  \<^verbatim>\<open>RemoteControlledTank.__init__\<close> set on \<^verbatim>\<open>self\<close>. A robot class adds its own
  attributes in the extension of the record.
\<close>

record BeaconDriver =
  driver :: DriveBase
  ir_sensor :: InfraredSensor
  ir_beacon_channel :: int

text \<open>
  \<^verbatim>\<open>IRBeaconDriverMixin.drive_by_ir_beacon\<close> (ev3rstorm/main.py). A fault of the sensor
  read leaves the method before anything else happens.
\<close>

definition IRBeaconDriverMixin_drive_by_ir_beacon ::
  "'a BeaconDriver_scheme \<Rightarrow> real \<Rightarrow> real \<Rightarrow> error + 'a BeaconDriver_scheme" where
  "IRBeaconDriverMixin_drive_by_ir_beacon self speed turn_rate =
    (case buttons (ir_sensor self) (ir_beacon_channel self) of
       Inl e \<Rightarrow> Inl e
     | Inr pressed \<Rightarrow>
        (let ir_beacon_button_pressed = set pressed in
         if ir_beacon_button_pressed = {LEFT_UP, RIGHT_UP} then
           Inr (self\<lparr>driver := DriveBase_drive (driver self) speed 0\<rparr>)
         else if ir_beacon_button_pressed = {LEFT_DOWN, RIGHT_DOWN} then
           Inr (self\<lparr>driver := DriveBase_drive (driver self) (- speed) 0\<rparr>)
         else if ir_beacon_button_pressed = {LEFT_UP, RIGHT_DOWN} then
           Inr (self\<lparr>driver := DriveBase_drive (driver self) 0 (- turn_rate)\<rparr>)
         else if ir_beacon_button_pressed = {RIGHT_UP, LEFT_DOWN} then
           Inr (self\<lparr>driver := DriveBase_drive (driver self) 0 turn_rate\<rparr>)
         else if ir_beacon_button_pressed = {LEFT_UP} then
           Inr (self\<lparr>driver := DriveBase_drive (driver self) speed (- turn_rate)\<rparr>)
         else if ir_beacon_button_pressed = {RIGHT_UP} then
           Inr (self\<lparr>driver := DriveBase_drive (driver self) speed turn_rate\<rparr>)
         else if ir_beacon_button_pressed = {LEFT_DOWN} then
           Inr (self\<lparr>driver := DriveBase_drive (driver self) (- speed) turn_rate\<rparr>)
         else if ir_beacon_button_pressed = {RIGHT_DOWN} then
           Inr (self\<lparr>driver := DriveBase_drive (driver self) (- speed) (- turn_rate)\<rparr>)
         else
           Inr (self\<lparr>driver := DriveBase_stop (driver self)\<rparr>)))"

text \<open>\<^verbatim>\<open>RemoteControlledTank.drive_by_ir_beacon\<close> (gripp3r/main.py).\<close>

definition RemoteControlledTank_drive_by_ir_beacon ::
  "'a BeaconDriver_scheme \<Rightarrow> real \<Rightarrow> real \<Rightarrow> error + 'a BeaconDriver_scheme" where
  "RemoteControlledTank_drive_by_ir_beacon self speed turn_rate =
    (case buttons (ir_sensor self) (ir_beacon_channel self) of
       Inl e \<Rightarrow> Inl e
     | Inr pressed \<Rightarrow>
        (let ir_beacon_button_pressed = set pressed in
         if ir_beacon_button_pressed = {LEFT_UP, RIGHT_UP} then
           Inr (self\<lparr>driver := DriveBase_drive (driver self) speed 0\<rparr>)
         else if ir_beacon_button_pressed = {LEFT_DOWN, RIGHT_DOWN} then
           Inr (self\<lparr>driver := DriveBase_drive (driver self) (- speed) 0\<rparr>)
         else if ir_beacon_button_pressed = {LEFT_UP, RIGHT_DOWN} then
           Inr (self\<lparr>driver := DriveBase_drive (driver self) 0 (- turn_rate)\<rparr>)
         else if ir_beacon_button_pressed = {RIGHT_UP, LEFT_DOWN} then
           Inr (self\<lparr>driver := DriveBase_drive (driver self) 0 turn_rate\<rparr>)
         else if ir_beacon_button_pressed = {LEFT_UP} then
           Inr (self\<lparr>driver := DriveBase_drive (driver self) speed (- turn_rate)\<rparr>)
         else if ir_beacon_button_pressed = {RIGHT_UP} then
           Inr (self\<lparr>driver := DriveBase_drive (driver self) speed turn_rate\<rparr>)
         else if ir_beacon_button_pressed = {LEFT_DOWN} then
           Inr (self\<lparr>driver := DriveBase_drive (driver self) (- speed) turn_rate\<rparr>)
         else if ir_beacon_button_pressed = {RIGHT_DOWN} then
           Inr (self\<lparr>driver := DriveBase_drive (driver self) (- speed) (- turn_rate)\<rparr>)
         else
           Inr (self\<lparr>driver := DriveBase_stop (driver self)\<rparr>)))"

text \<open>
  \<open>issues res self c\<close>: the call returned normally, and the drive base of the state it
  returned has received the one command \<open>c\<close> after everything it had received in \<open>self\<close>.
\<close>

definition issues ::
  "error + 'a BeaconDriver_scheme \<Rightarrow> 'a BeaconDriver_scheme \<Rightarrow> DriveCommand \<Rightarrow> bool" where
  "issues res self c =
    (case res of
       Inl e \<Rightarrow> False
     | Inr self' \<Rightarrow> commands (driver self') = commands (driver self) @ [c])"

text \<open>
  A robot built on ports B, C and S4 with beacon channel 1, wheels of 26 mm and an axle
  track of 102 mm (the constants of both robot classes), whose drive base has received the
  commands \<open>history\<close> and whose remote holds the buttons \<open>held\<close> on every channel.
\<close>

definition robot_holding :: "DriveCommand list \<Rightarrow> Button list \<Rightarrow> BeaconDriver" where
  "robot_holding history held =
    \<lparr>driver =
       \<lparr>left_motor = \<lparr>port = Port_B, positive_direction = CLOCKWISE\<rparr>,
        right_motor = \<lparr>port = Port_C, positive_direction = CLOCKWISE\<rparr>,
        wheel_diameter = 26, axle_track = 102, commands = history\<rparr>,
     ir_sensor = \<lparr>sensor_port = Port_S4, buttons = (\<lambda>channel. Inr held)\<rparr>,
     ir_beacon_channel = 1\<rparr>"

section \<open>The branches as a table\<close>

text \<open>
  The eight \<^verbatim>\<open>if\<close>/\<^verbatim>\<open>elif\<close> branches of \<^verbatim>\<open>drive_by_ir_beacon\<close>, in the order of the
  source: the button set each one compares with, and the command it sends.
\<close>

definition drive_by_ir_beacon_branches :: "real \<Rightarrow> real \<Rightarrow> (Button set \<times> DriveCommand) list" where
  "drive_by_ir_beacon_branches speed turn_rate =
    [({LEFT_UP, RIGHT_UP}, DriveCmd speed 0),
     ({LEFT_DOWN, RIGHT_DOWN}, DriveCmd (- speed) 0),
     ({LEFT_UP, RIGHT_DOWN}, DriveCmd 0 (- turn_rate)),
     ({RIGHT_UP, LEFT_DOWN}, DriveCmd 0 turn_rate),
     ({LEFT_UP}, DriveCmd speed (- turn_rate)),
     ({RIGHT_UP}, DriveCmd speed turn_rate),
     ({LEFT_DOWN}, DriveCmd (- speed) turn_rate),
     ({RIGHT_DOWN}, DriveCmd (- speed) (- turn_rate))]"

text \<open>
  Evaluating a list of branches from its head: the first one whose button set is the
  pressed set gives the command, and the final \<^verbatim>\<open>else\<close> stops.
\<close>

fun first_match :: "(Button set \<times> DriveCommand) list \<Rightarrow> Button set \<Rightarrow> DriveCommand" where
  "first_match [] pressed = StopCmd"
| "first_match (row # rows) pressed =
    (if pressed = fst row then snd row else first_match rows pressed)"

text \<open>The button sets that have a branch of their own.\<close>

definition listed_button_sets :: "Button set set" where
  "listed_button_sets =
    {{LEFT_UP, RIGHT_UP}, {LEFT_DOWN, RIGHT_DOWN}, {LEFT_UP, RIGHT_DOWN}, {RIGHT_UP, LEFT_DOWN},
     {LEFT_UP}, {RIGHT_UP}, {LEFT_DOWN}, {RIGHT_DOWN}}"

section \<open>The two symmetries of the remote\<close>

text \<open>\<open>mirror\<close> exchanges the left and the right side of the remote.\<close>

fun mirror :: "Button \<Rightarrow> Button" where
  "mirror LEFT_UP = RIGHT_UP"
| "mirror RIGHT_UP = LEFT_UP"
| "mirror LEFT_DOWN = RIGHT_DOWN"
| "mirror RIGHT_DOWN = LEFT_DOWN"
| "mirror b = b"

text \<open>\<open>flip\<close> exchanges the upper and the lower button of each side.\<close>

fun flip :: "Button \<Rightarrow> Button" where
  "flip LEFT_UP = LEFT_DOWN"
| "flip LEFT_DOWN = LEFT_UP"
| "flip RIGHT_UP = RIGHT_DOWN"
| "flip RIGHT_DOWN = RIGHT_UP"
| "flip b = b"

section \<open>Construction of the Gripp3r\<close>

text \<open>
  The values a constructor can be given. \<open>PyInstance\<close> is the object under construction,
  the value of \<^verbatim>\<open>self\<close>.
\<close>

datatype pyval = PyNone | PyInstance | PyPort Port | PyInt int | PyFloat real | PyStr string

text \<open>A parameter of a \<^verbatim>\<open>def\<close>: its name and its default value, when it has one.\<close>

type_synonym parameter = "string \<times> pyval option"

text \<open>
  How a call binds its arguments to the parameters of a \<^verbatim>\<open>def\<close> that has neither
  \<^verbatim>\<open>*args\<close> nor \<^verbatim>\<open>**kwargs\<close>. Positional arguments fill the parameters from the left;
  more of them than parameters is a \<^verbatim>\<open>TypeError\<close>.
\<close>

fun bind_positional :: "parameter list \<Rightarrow> pyval list \<Rightarrow> error + (string \<times> pyval) list" where
  "bind_positional ps [] = Inr []"
| "bind_positional [] (v # vs) = Inl TypeError"
| "bind_positional (p # ps) (v # vs) =
    (case bind_positional ps vs of
       Inl e \<Rightarrow> Inl e
     | Inr bound \<Rightarrow> Inr ((fst p, v) # bound))"

text \<open>
  Then each keyword argument: a name that is no parameter is a \<^verbatim>\<open>TypeError\<close>
  (unexpected keyword argument), and so is a name that already has a value
  (multiple values for argument).
\<close>

fun bind_keywords ::
  "parameter list \<Rightarrow> (string \<times> pyval) list \<Rightarrow> (string \<times> pyval) list \<Rightarrow>
   error + (string \<times> pyval) list" where
  "bind_keywords ps bound [] = Inr bound"
| "bind_keywords ps bound (kw # kws) =
    (if fst kw \<notin> set (map fst ps) then Inl TypeError
     else if fst kw \<in> set (map fst bound) then Inl TypeError
     else bind_keywords ps (bound @ [kw]) kws)"

text \<open>
  Last, a parameter without a value takes its default; one without a default is a
  \<^verbatim>\<open>TypeError\<close> (missing required argument).
\<close>

fun fill_defaults :: "parameter list \<Rightarrow> (string \<times> pyval) list \<Rightarrow> error + (string \<times> pyval) list" where
  "fill_defaults [] bound = Inr []"
| "fill_defaults (p # ps) bound =
    (case (case map_of bound (fst p) of Some v \<Rightarrow> Some v | None \<Rightarrow> snd p) of
       None \<Rightarrow> Inl TypeError
     | Some v \<Rightarrow>
        (case fill_defaults ps bound of
           Inl e \<Rightarrow> Inl e
         | Inr env \<Rightarrow> Inr ((fst p, v) # env)))"

definition call_bind ::
  "parameter list \<Rightarrow> pyval list \<Rightarrow> (string \<times> pyval) list \<Rightarrow> error + (string \<rightharpoonup> pyval)" where
  "call_bind ps args kwargs =
    (case bind_positional ps args of
       Inl e \<Rightarrow> Inl e
     | Inr bound \<Rightarrow>
        (case bind_keywords ps bound kwargs of
           Inl e \<Rightarrow> Inl e
         | Inr bound' \<Rightarrow>
            (case fill_defaults ps bound' of
               Inl e \<Rightarrow> Inl e
             | Inr env \<Rightarrow> Inr (map_of env))))"

text \<open>
  The constructors of the library, which take values of the types their parameters are
  annotated with and raise \<^verbatim>\<open>TypeError\<close> on any other. A new drive base has received no
  command. \<open>remote\<close> is what the hardware on the sensor's port reports.
\<close>

fun Motor_new :: "pyval option \<Rightarrow> Direction \<Rightarrow> error + Motor" where
  "Motor_new (Some (PyPort p)) d = Inr \<lparr>port = p, positive_direction = d\<rparr>"
| "Motor_new _ d = Inl TypeError"

fun number :: "pyval option \<Rightarrow> real option" where
  "number (Some (PyInt i)) = Some (real_of_int i)"
| "number (Some (PyFloat x)) = Some x"
| "number _ = None"

definition DriveBase_new ::
  "Motor \<Rightarrow> Motor \<Rightarrow> pyval option \<Rightarrow> pyval option \<Rightarrow> error + DriveBase" where
  "DriveBase_new l r wd track =
    (case (number wd, number track) of
       (Some w, Some a) \<Rightarrow>
         Inr \<lparr>left_motor = l, right_motor = r, wheel_diameter = w, axle_track = a, commands = []\<rparr>
     | _ \<Rightarrow> Inl TypeError)"

fun InfraredSensor_new ::
  "(int \<Rightarrow> error + Button list) \<Rightarrow> pyval option \<Rightarrow> error + InfraredSensor" where
  "InfraredSensor_new remote (Some (PyPort p)) = Inr \<lparr>sensor_port = p, buttons = remote\<rparr>"
| "InfraredSensor_new remote _ = Inl TypeError"

text \<open>
  \<^verbatim>\<open>RemoteControlledTank.__init__\<close> (gripp3r/main.py): its parameters, and the call
  \<^verbatim>\<open>RemoteControlledTank.__init__(*args, **kwargs)\<close>, \<^verbatim>\<open>self\<close> being the first of \<open>args\<close>.
  The beacon channel is kept as the integer its annotation says it is.
\<close>

definition RemoteControlledTank_init_parameters :: "parameter list" where
  "RemoteControlledTank_init_parameters =
    [(''self'', None),
     (''wheel_diameter'', None), (''axle_track'', None),
     (''left_motor_port'', Some (PyPort Port_B)), (''right_motor_port'', Some (PyPort Port_C)),
     (''ir_sensor_port'', Some (PyPort Port_S4)), (''ir_beacon_channel'', Some (PyInt 1))]"

definition RemoteControlledTank_init ::
  "(int \<Rightarrow> error + Button list) \<Rightarrow> pyval list \<Rightarrow> (string \<times> pyval) list \<Rightarrow> error + BeaconDriver" where
  "RemoteControlledTank_init remote args kwargs =
    (case call_bind RemoteControlledTank_init_parameters args kwargs of
       Inl e \<Rightarrow> Inl e
     | Inr env \<Rightarrow>
    (case Motor_new (env ''left_motor_port'') CLOCKWISE of
       Inl e \<Rightarrow> Inl e
     | Inr l \<Rightarrow>
    (case Motor_new (env ''right_motor_port'') CLOCKWISE of
       Inl e \<Rightarrow> Inl e
     | Inr r \<Rightarrow>
    (case DriveBase_new l r (env ''wheel_diameter'') (env ''axle_track'') of
       Inl e \<Rightarrow> Inl e
     | Inr d \<Rightarrow>
    (case InfraredSensor_new remote (env ''ir_sensor_port'') of
       Inl e \<Rightarrow> Inl e
     | Inr s \<Rightarrow>
    (case env ''ir_beacon_channel'' of
       Some (PyInt channel) \<Rightarrow> Inr \<lparr>driver = d, ir_sensor = s, ir_beacon_channel = channel\<rparr>
     | _ \<Rightarrow> Inl TypeError))))))"

text \<open>
  \<^verbatim>\<open>Gripp3r.__init__\<close>. \<^verbatim>\<open>super().__init__\<close> is \<^verbatim>\<open>RemoteControlledTank.__init__\<close>
  already bound to \<^verbatim>\<open>self\<close>, so the \<^verbatim>\<open>self\<close> that the source writes as the first argument
  is a second positional argument of the call.
\<close>

definition Gripp3r_WHEEL_DIAMETER :: pyval where
  "Gripp3r_WHEEL_DIAMETER = PyInt 26"

definition Gripp3r_AXLE_TRACK :: pyval where
  "Gripp3r_AXLE_TRACK = PyInt 102"

definition Gripp3r_init_parameters :: "parameter list" where
  "Gripp3r_init_parameters =
    [(''self'', None),
     (''left_track_motor_port'', Some (PyPort Port_B)),
     (''right_track_motor_port'', Some (PyPort Port_C)),
     (''ir_sensor_port'', Some (PyPort Port_S4)), (''ir_beacon_channel'', Some (PyInt 1))]"

definition Gripp3r_init ::
  "(int \<Rightarrow> error + Button list) \<Rightarrow> pyval list \<Rightarrow> (string \<times> pyval) list \<Rightarrow> error + BeaconDriver" where
  "Gripp3r_init remote args kwargs =
    (case call_bind Gripp3r_init_parameters args kwargs of
       Inl e \<Rightarrow> Inl e
     | Inr env \<Rightarrow>
        RemoteControlledTank_init remote
          [the (env ''self''),
           the (env ''self'')]
          [(''wheel_diameter'', Gripp3r_WHEEL_DIAMETER), (''axle_track'', Gripp3r_AXLE_TRACK),
           (''left_motor_port'', the (env ''left_track_motor_port'')),
           (''right_motor_port'', the (env ''right_track_motor_port'')),
           (''ir_sensor_port'', the (env ''ir_sensor_port'')),
           (''ir_beacon_channel'', the (env ''ir_beacon_channel''))])"

text \<open>
  The call \<^verbatim>\<open>Gripp3r(*args, **kwargs)\<close>: a new instance, then \<^verbatim>\<open>__init__\<close> on it and the
  arguments of the call.
\<close>

definition Gripp3r_new ::
  "(int \<Rightarrow> error + Button list) \<Rightarrow> pyval list \<Rightarrow> (string \<times> pyval) list \<Rightarrow> error + BeaconDriver" where
  "Gripp3r_new remote args kwargs = Gripp3r_init remote (PyInstance # args) kwargs"

text \<open>
  \<^verbatim>\<open>Gripp3r.main\<close>: the loop \<^verbatim>\<open>while True: self.drive_by_ir_beacon(speed=300)\<close>, run for as
  many rounds as \<open>readings\<close> has elements; the remote reports \<open>readings ! i\<close> in round \<open>i\<close>.
\<close>

fun Gripp3r_main ::
  "(int \<Rightarrow> error + Button list) list \<Rightarrow> BeaconDriver \<Rightarrow> error + BeaconDriver" where
  "Gripp3r_main [] self = Inr self"
| "Gripp3r_main (reading # readings) self =
    (case RemoteControlledTank_drive_by_ir_beacon
            (self\<lparr>ir_sensor := (ir_sensor self)\<lparr>buttons := reading\<rparr>\<rparr>) 300 90 of
       Inl e \<Rightarrow> Inl e
     | Inr self' \<Rightarrow> Gripp3r_main readings self')"

text \<open>The script of gripp3r/main.py: \<^verbatim>\<open>GRIPP3R = Gripp3r()\<close>, then \<^verbatim>\<open>GRIPP3R.main()\<close>.\<close>

definition Gripp3r_script ::
  "(int \<Rightarrow> error + Button list) \<Rightarrow> (int \<Rightarrow> error + Button list) list \<Rightarrow> error + BeaconDriver" where
  "Gripp3r_script remote readings =
    (case Gripp3r_new remote [] [] of
       Inl e \<Rightarrow> Inl e
     | Inr gripp3r \<Rightarrow> Gripp3r_main readings gripp3r)"

section \<open>The command of each button set\<close>

lemma issues_Inr:
  "issues (Inr self') self c \<longleftrightarrow> commands (driver self') = commands (driver self) @ [c]"
  by (simp add: issues_def)

lemma issues_drive:
  "issues (Inr (self\<lparr>driver := DriveBase_drive (driver self) v w\<rparr>)) self c \<longleftrightarrow> c = DriveCmd v w"
  by (auto simp: issues_def DriveBase_drive_def)

lemma issues_stop:
  "issues (Inr (self\<lparr>driver := DriveBase_stop (driver self)\<rparr>)) self c \<longleftrightarrow> c = StopCmd"
  by (auto simp: issues_def DriveBase_stop_def)


text \<open>
  Once the read has given a list of buttons, each method returns normally and the command
  it sends is the one of the first branch whose button set is the set of that list.
\<close>

lemma IRBeaconDriverMixin_issues_iff:
  assumes "buttons (ir_sensor self) (ir_beacon_channel self) = Inr bs"
  shows "issues (IRBeaconDriverMixin_drive_by_ir_beacon self speed turn_rate) self c \<longleftrightarrow>
    c = (if set bs = {LEFT_UP, RIGHT_UP} then DriveCmd speed 0
          else if set bs = {LEFT_DOWN, RIGHT_DOWN} then DriveCmd (- speed) 0
          else if set bs = {LEFT_UP, RIGHT_DOWN} then DriveCmd 0 (- turn_rate)
          else if set bs = {RIGHT_UP, LEFT_DOWN} then DriveCmd 0 turn_rate
          else if set bs = {LEFT_UP} then DriveCmd speed (- turn_rate)
          else if set bs = {RIGHT_UP} then DriveCmd speed turn_rate
          else if set bs = {LEFT_DOWN} then DriveCmd (- speed) turn_rate
          else if set bs = {RIGHT_DOWN} then DriveCmd (- speed) (- turn_rate)
          else StopCmd)"
  using assms
  by (simp add: IRBeaconDriverMixin_drive_by_ir_beacon_def Let_def issues_drive issues_stop)

lemma RemoteControlledTank_issues_iff:
  assumes "buttons (ir_sensor self) (ir_beacon_channel self) = Inr bs"
  shows "issues (RemoteControlledTank_drive_by_ir_beacon self speed turn_rate) self c \<longleftrightarrow>
    c = (if set bs = {LEFT_UP, RIGHT_UP} then DriveCmd speed 0
          else if set bs = {LEFT_DOWN, RIGHT_DOWN} then DriveCmd (- speed) 0
          else if set bs = {LEFT_UP, RIGHT_DOWN} then DriveCmd 0 (- turn_rate)
          else if set bs = {RIGHT_UP, LEFT_DOWN} then DriveCmd 0 turn_rate
          else if set bs = {LEFT_UP} then DriveCmd speed (- turn_rate)
          else if set bs = {RIGHT_UP} then DriveCmd speed turn_rate
          else if set bs = {LEFT_DOWN} then DriveCmd (- speed) turn_rate
          else if set bs = {RIGHT_DOWN} then DriveCmd (- speed) (- turn_rate)
          else StopCmd)"
  using assms
  by (simp add: RemoteControlledTank_drive_by_ir_beacon_def Let_def issues_drive issues_stop)

lemma beacon_step_issues_iff:
  assumes "step = IRBeaconDriverMixin_drive_by_ir_beacon \<or>
           step = RemoteControlledTank_drive_by_ir_beacon"
    and "buttons (ir_sensor self) (ir_beacon_channel self) = Inr bs"
  shows "issues (step self speed turn_rate) self c \<longleftrightarrow>
    c = (if set bs = {LEFT_UP, RIGHT_UP} then DriveCmd speed 0
          else if set bs = {LEFT_DOWN, RIGHT_DOWN} then DriveCmd (- speed) 0
          else if set bs = {LEFT_UP, RIGHT_DOWN} then DriveCmd 0 (- turn_rate)
          else if set bs = {RIGHT_UP, LEFT_DOWN} then DriveCmd 0 turn_rate
          else if set bs = {LEFT_UP} then DriveCmd speed (- turn_rate)
          else if set bs = {RIGHT_UP} then DriveCmd speed turn_rate
          else if set bs = {LEFT_DOWN} then DriveCmd (- speed) turn_rate
          else if set bs = {RIGHT_DOWN} then DriveCmd (- speed) (- turn_rate)
          else StopCmd)"
  using assms IRBeaconDriverMixin_issues_iff [OF assms(2)] RemoteControlledTank_issues_iff [OF assms(2)]
  by blast

lemma beacon_step_returns:
  assumes "step = IRBeaconDriverMixin_drive_by_ir_beacon \<or>
           step = RemoteControlledTank_drive_by_ir_beacon"
    and "buttons (ir_sensor self) (ir_beacon_channel self) = Inr bs"
  shows "\<exists>self'. step self speed turn_rate = Inr self'"
  using assms
  by (auto simp: IRBeaconDriverMixin_drive_by_ir_beacon_def
      RemoteControlledTank_drive_by_ir_beacon_def Let_def)

lemmas button_set_eq = doubleton_eq_iff insert_commute

text \<open>
  C1. For each of the eight listed button sets, one call of either program's
  \<^verbatim>\<open>drive_by_ir_beacon\<close> with profile \<open>(speed, turn_rate)\<close> sends exactly the drive command
  of the table: forward, backward, the two turns on the spot and the four arcs.
\<close>

theorem listed_button_sets_issue_table_commands:
  assumes "step = IRBeaconDriverMixin_drive_by_ir_beacon \<or>
           step = RemoteControlledTank_drive_by_ir_beacon"
    and "buttons (ir_sensor self) (ir_beacon_channel self) = Inr bs"
  shows "(set bs = {LEFT_UP, RIGHT_UP} \<longrightarrow>
            issues (step self speed turn_rate) self (DriveCmd speed 0))
       \<and> (set bs = {LEFT_DOWN, RIGHT_DOWN} \<longrightarrow>
            issues (step self speed turn_rate) self (DriveCmd (- speed) 0))
       \<and> (set bs = {LEFT_UP, RIGHT_DOWN} \<longrightarrow>
            issues (step self speed turn_rate) self (DriveCmd 0 (- turn_rate)))
       \<and> (set bs = {RIGHT_UP, LEFT_DOWN} \<longrightarrow>
            issues (step self speed turn_rate) self (DriveCmd 0 turn_rate))
       \<and> (set bs = {LEFT_UP} \<longrightarrow>
            issues (step self speed turn_rate) self (DriveCmd speed (- turn_rate)))
       \<and> (set bs = {RIGHT_UP} \<longrightarrow>
            issues (step self speed turn_rate) self (DriveCmd speed turn_rate))
       \<and> (set bs = {LEFT_DOWN} \<longrightarrow>
            issues (step self speed turn_rate) self (DriveCmd (- speed) turn_rate))
       \<and> (set bs = {RIGHT_DOWN} \<longrightarrow>
            issues (step self speed turn_rate) self (DriveCmd (- speed) (- turn_rate)))"
  unfolding beacon_step_issues_iff [OF assms]
  by (simp add: button_set_eq)

theorem listed_button_sets_issue_table_commands_witness:
  "issues (IRBeaconDriverMixin_drive_by_ir_beacon (robot_holding [] [LEFT_UP, RIGHT_UP]) 100 90)
     (robot_holding [] [LEFT_UP, RIGHT_UP]) (DriveCmd 100 0)
 \<and> issues (RemoteControlledTank_drive_by_ir_beacon (robot_holding [] [RIGHT_DOWN, LEFT_DOWN]) 300 90)
     (robot_holding [] [RIGHT_DOWN, LEFT_DOWN]) (DriveCmd (- 300) 0)
 \<and> issues (IRBeaconDriverMixin_drive_by_ir_beacon (robot_holding [StopCmd] [LEFT_UP, RIGHT_DOWN]) 100 90)
     (robot_holding [StopCmd] [LEFT_UP, RIGHT_DOWN]) (DriveCmd 0 (- 90))
 \<and> issues (RemoteControlledTank_drive_by_ir_beacon (robot_holding [] [LEFT_DOWN, RIGHT_UP, LEFT_DOWN]) 300 90)
     (robot_holding [] [LEFT_DOWN, RIGHT_UP, LEFT_DOWN]) (DriveCmd 0 90)
 \<and> issues (IRBeaconDriverMixin_drive_by_ir_beacon (robot_holding [] [LEFT_UP]) 100 90)
     (robot_holding [] [LEFT_UP]) (DriveCmd 100 (- 90))
 \<and> issues (RemoteControlledTank_drive_by_ir_beacon (robot_holding [] [RIGHT_UP]) 300 90)
     (robot_holding [] [RIGHT_UP]) (DriveCmd 300 90)
 \<and> issues (IRBeaconDriverMixin_drive_by_ir_beacon (robot_holding [] [LEFT_DOWN]) 100 90)
     (robot_holding [] [LEFT_DOWN]) (DriveCmd (- 100) 90)
 \<and> issues (RemoteControlledTank_drive_by_ir_beacon (robot_holding [] [RIGHT_DOWN]) 300 90)
     (robot_holding [] [RIGHT_DOWN]) (DriveCmd (- 300) (- 90))"
  using
    listed_button_sets_issue_table_commands [where step = IRBeaconDriverMixin_drive_by_ir_beacon
      and self = "robot_holding [] [LEFT_UP, RIGHT_UP]" and bs = "[LEFT_UP, RIGHT_UP]"
      and speed = 100 and turn_rate = 90]
    listed_button_sets_issue_table_commands [where step = RemoteControlledTank_drive_by_ir_beacon
      and self = "robot_holding [] [RIGHT_DOWN, LEFT_DOWN]" and bs = "[RIGHT_DOWN, LEFT_DOWN]"
      and speed = 300 and turn_rate = 90]
    listed_button_sets_issue_table_commands [where step = IRBeaconDriverMixin_drive_by_ir_beacon
      and self = "robot_holding [StopCmd] [LEFT_UP, RIGHT_DOWN]" and bs = "[LEFT_UP, RIGHT_DOWN]"
      and speed = 100 and turn_rate = 90]
    listed_button_sets_issue_table_commands [where step = RemoteControlledTank_drive_by_ir_beacon
      and self = "robot_holding [] [LEFT_DOWN, RIGHT_UP, LEFT_DOWN]"
      and bs = "[LEFT_DOWN, RIGHT_UP, LEFT_DOWN]" and speed = 300 and turn_rate = 90]
    listed_button_sets_issue_table_commands [where step = IRBeaconDriverMixin_drive_by_ir_beacon
      and self = "robot_holding [] [LEFT_UP]" and bs = "[LEFT_UP]"
      and speed = 100 and turn_rate = 90]
    listed_button_sets_issue_table_commands [where step = RemoteControlledTank_drive_by_ir_beacon
      and self = "robot_holding [] [RIGHT_UP]" and bs = "[RIGHT_UP]"
      and speed = 300 and turn_rate = 90]
    listed_button_sets_issue_table_commands [where step = IRBeaconDriverMixin_drive_by_ir_beacon
      and self = "robot_holding [] [LEFT_DOWN]" and bs = "[LEFT_DOWN]"
      and speed = 100 and turn_rate = 90]
    listed_button_sets_issue_table_commands [where step = RemoteControlledTank_drive_by_ir_beacon
      and self = "robot_holding [] [RIGHT_DOWN]" and bs = "[RIGHT_DOWN]"
      and speed = 300 and turn_rate = 90]
  by (simp add: robot_holding_def button_set_eq)

text \<open>
  C5. The two programs' methods agree: on every state, speed and turn rate,
  \<^verbatim>\<open>IRBeaconDriverMixin.drive_by_ir_beacon\<close> and \<^verbatim>\<open>RemoteControlledTank.drive_by_ir_beacon\<close>
  return the same result, so they send the same drive or stop command (and let the same
  fault of the read through).
\<close>

theorem drive_by_ir_beacon_programs_agree:
  "IRBeaconDriverMixin_drive_by_ir_beacon self speed turn_rate =
   RemoteControlledTank_drive_by_ir_beacon self speed turn_rate"
  by (simp add: IRBeaconDriverMixin_drive_by_ir_beacon_def
      RemoteControlledTank_drive_by_ir_beacon_def)

text \<open>
  C2. Whatever list of buttons the read gives, either program's method returns normally;
  and when the set of those buttons is none of the eight listed ones (the empty set, the
  pairs \<open>{LEFT_UP, LEFT_DOWN}\<close> and \<open>{RIGHT_UP, RIGHT_DOWN}\<close>, every set of three or four
  buttons, every set with a button other than the four), the command it sends is stop.
\<close>

theorem unlisted_button_sets_stop_without_error:
  assumes "step = IRBeaconDriverMixin_drive_by_ir_beacon \<or>
           step = RemoteControlledTank_drive_by_ir_beacon"
    and "buttons (ir_sensor self) (ir_beacon_channel self) = Inr bs"
  shows "(\<exists>self'. step self speed turn_rate = Inr self')
       \<and> (set bs \<notin> listed_button_sets \<longrightarrow> issues (step self speed turn_rate) self StopCmd)"
  unfolding beacon_step_issues_iff [OF assms]
  using beacon_step_returns [OF assms]
  by (simp add: listed_button_sets_def)

theorem unlisted_button_sets_stop_without_error_witness:
  "(\<exists>self'. IRBeaconDriverMixin_drive_by_ir_beacon (robot_holding [] []) 100 90 = Inr self')
 \<and> issues (IRBeaconDriverMixin_drive_by_ir_beacon (robot_holding [] []) 100 90)
     (robot_holding [] []) StopCmd
 \<and> issues (RemoteControlledTank_drive_by_ir_beacon
             (robot_holding [] [LEFT_UP, LEFT_DOWN, RIGHT_UP]) 300 90)
     (robot_holding [] [LEFT_UP, LEFT_DOWN, RIGHT_UP]) StopCmd"
proof -
  have triple: "set [LEFT_UP, LEFT_DOWN, RIGHT_UP] \<notin> listed_button_sets"
    by (auto simp: listed_button_sets_def)
  have none: "set ([] :: Button list) \<notin> listed_button_sets"
    by (simp add: listed_button_sets_def)
  show ?thesis
    using triple none
      unlisted_button_sets_stop_without_error [where step = IRBeaconDriverMixin_drive_by_ir_beacon
        and self = "robot_holding [] []" and bs = "[]" and speed = 100 and turn_rate = 90]
      unlisted_button_sets_stop_without_error [where step = RemoteControlledTank_drive_by_ir_beacon
        and self = "robot_holding [] [LEFT_UP, LEFT_DOWN, RIGHT_UP]"
        and bs = "[LEFT_UP, LEFT_DOWN, RIGHT_UP]" and speed = 300 and turn_rate = 90]
    by (simp add: robot_holding_def)
qed

text \<open>
  C3. For every list of buttons the read gives, one call of either program's method sends
  exactly one command to the drive base: the commands the drive base has received after the
  call are those it had received before, followed by one more, a drive or a stop.
\<close>

theorem drive_by_ir_beacon_issues_exactly_one_command:
  assumes "step = IRBeaconDriverMixin_drive_by_ir_beacon \<or>
           step = RemoteControlledTank_drive_by_ir_beacon"
    and "buttons (ir_sensor self) (ir_beacon_channel self) = Inr bs"
  shows "\<exists>!c. issues (step self speed turn_rate) self c"
  unfolding beacon_step_issues_iff [OF assms]
  by simp

theorem drive_by_ir_beacon_issues_exactly_one_command_witness:
  "\<exists>!c. issues (RemoteControlledTank_drive_by_ir_beacon
                  (robot_holding [StopCmd] [LEFT_UP, RIGHT_UP]) 300 90)
            (robot_holding [StopCmd] [LEFT_UP, RIGHT_UP]) c"
  using drive_by_ir_beacon_issues_exactly_one_command
    [where step = RemoteControlledTank_drive_by_ir_beacon
      and self = "robot_holding [StopCmd] [LEFT_UP, RIGHT_UP]" and bs = "[LEFT_UP, RIGHT_UP]"
      and speed = 300 and turn_rate = 90]
  by (simp add: robot_holding_def)

text \<open>
  C4. The command depends on the set of held buttons, the speed and the turn rate only:
  two calls on any two states whose reads give the same set of buttons send the same
  command for the same speed and turn rate, whatever the two drive bases have received
  before and whatever else the two states hold.
\<close>

theorem command_depends_on_buttons_and_profile_only:
  assumes "step = IRBeaconDriverMixin_drive_by_ir_beacon \<or>
           step = RemoteControlledTank_drive_by_ir_beacon"
    and "buttons (ir_sensor self1) (ir_beacon_channel self1) = Inr bs1"
    and "buttons (ir_sensor self2) (ir_beacon_channel self2) = Inr bs2"
    and "set bs1 = set bs2"
  shows "\<exists>c. issues (step self1 speed turn_rate) self1 c
           \<and> issues (step self2 speed turn_rate) self2 c"
  unfolding beacon_step_issues_iff [OF assms(1,2)] beacon_step_issues_iff [OF assms(1,3)]
  using assms(4) by simp

theorem command_depends_on_buttons_and_profile_only_witness:
  "\<exists>c. issues (IRBeaconDriverMixin_drive_by_ir_beacon
                 (robot_holding [] [LEFT_UP, RIGHT_DOWN]) 100 90)
           (robot_holding [] [LEFT_UP, RIGHT_DOWN]) c
     \<and> issues (IRBeaconDriverMixin_drive_by_ir_beacon
                 (robot_holding [StopCmd, DriveCmd 100 0] [RIGHT_DOWN, LEFT_UP, RIGHT_DOWN]) 100 90)
           (robot_holding [StopCmd, DriveCmd 100 0] [RIGHT_DOWN, LEFT_UP, RIGHT_DOWN]) c"
proof -
  have same: "set [LEFT_UP, RIGHT_DOWN] = set [RIGHT_DOWN, LEFT_UP, RIGHT_DOWN]"
    by auto
  show ?thesis
    using command_depends_on_buttons_and_profile_only
      [where step = IRBeaconDriverMixin_drive_by_ir_beacon
        and ?self1.0 = "robot_holding [] [LEFT_UP, RIGHT_DOWN]" and ?bs1.0 = "[LEFT_UP, RIGHT_DOWN]"
        and ?self2.0 = "robot_holding [StopCmd, DriveCmd 100 0] [RIGHT_DOWN, LEFT_UP, RIGHT_DOWN]"
        and ?bs2.0 = "[RIGHT_DOWN, LEFT_UP, RIGHT_DOWN]"
        and speed = 100 and turn_rate = 90, OF _ _ _ same]
    by (simp add: robot_holding_def)
qed

lemma RemoteControlledTank_as_IRBeaconDriverMixin:
  "RemoteControlledTank_drive_by_ir_beacon self speed turn_rate =
   IRBeaconDriverMixin_drive_by_ir_beacon self speed turn_rate"
  by (simp add: IRBeaconDriverMixin_drive_by_ir_beacon_def
      RemoteControlledTank_drive_by_ir_beacon_def)

lemma IRBeaconDriverMixin_unfold:
  "IRBeaconDriverMixin_drive_by_ir_beacon self speed turn_rate =
    (case buttons (ir_sensor self) (ir_beacon_channel self) of
       Inl e \<Rightarrow> Inl e
     | Inr bs \<Rightarrow>
        Inr (self\<lparr>driver := (driver self)\<lparr>commands := commands (driver self) @
         [(if set bs = {LEFT_UP, RIGHT_UP} then DriveCmd speed 0
          else if set bs = {LEFT_DOWN, RIGHT_DOWN} then DriveCmd (- speed) 0
          else if set bs = {LEFT_UP, RIGHT_DOWN} then DriveCmd 0 (- turn_rate)
          else if set bs = {RIGHT_UP, LEFT_DOWN} then DriveCmd 0 turn_rate
          else if set bs = {LEFT_UP} then DriveCmd speed (- turn_rate)
          else if set bs = {RIGHT_UP} then DriveCmd speed turn_rate
          else if set bs = {LEFT_DOWN} then DriveCmd (- speed) turn_rate
          else if set bs = {RIGHT_DOWN} then DriveCmd (- speed) (- turn_rate)
          else StopCmd)]\<rparr>\<rparr>))"
  by (simp add: IRBeaconDriverMixin_drive_by_ir_beacon_def Let_def DriveBase_drive_def
      DriveBase_stop_def split: sum.split)

lemma IRBeaconDriverMixin_result:
  assumes "IRBeaconDriverMixin_drive_by_ir_beacon self speed turn_rate = Inr self'"
  shows "\<exists>c. self' = self\<lparr>driver := (driver self)\<lparr>commands := commands (driver self) @ [c]\<rparr>\<rparr>"
proof (cases "buttons (ir_sensor self) (ir_beacon_channel self)")
  case (Inl e)
  with assms show ?thesis
    by (simp add: IRBeaconDriverMixin_unfold)
next
  case (Inr bs)
  with assms show ?thesis
    unfolding IRBeaconDriverMixin_unfold by (simp del: if_split) blast
qed

text \<open>
  C7. A call of either program's method that returns changes nothing of the state but the
  commands the drive base has received, which grow by one: the sensor, the beacon channel,
  every attribute a robot class adds, and the motors, wheel diameter and axle track of the
  drive base are as before. Speed and turn rate are arguments and no part of the state.
\<close>

theorem drive_by_ir_beacon_frame:
  assumes "step = IRBeaconDriverMixin_drive_by_ir_beacon \<or>
           step = RemoteControlledTank_drive_by_ir_beacon"
    and "step self speed turn_rate = Inr self'"
  shows "ir_sensor self' = ir_sensor self
       \<and> ir_beacon_channel self' = ir_beacon_channel self
       \<and> BeaconDriver.more self' = BeaconDriver.more self
       \<and> left_motor (driver self') = left_motor (driver self)
       \<and> right_motor (driver self') = right_motor (driver self)
       \<and> wheel_diameter (driver self') = wheel_diameter (driver self)
       \<and> axle_track (driver self') = axle_track (driver self)
       \<and> (\<exists>c. commands (driver self') = commands (driver self) @ [c])"
proof -
  from assms have "IRBeaconDriverMixin_drive_by_ir_beacon self speed turn_rate = Inr self'"
    by (auto simp: RemoteControlledTank_as_IRBeaconDriverMixin)
  from IRBeaconDriverMixin_result [OF this] obtain c where
    "self' = self\<lparr>driver := (driver self)\<lparr>commands := commands (driver self) @ [c]\<rparr>\<rparr>" ..
  then show ?thesis by simp
qed
theorem drive_by_ir_beacon_frame_witness:
  "IRBeaconDriverMixin_drive_by_ir_beacon (robot_holding [StopCmd] [LEFT_UP]) 100 90 =
     Inr (robot_holding [StopCmd, DriveCmd 100 (- 90)] [LEFT_UP])
 \<and> ir_sensor (robot_holding [StopCmd, DriveCmd 100 (- 90)] [LEFT_UP]) =
     ir_sensor (robot_holding [StopCmd] [LEFT_UP])
 \<and> ir_beacon_channel (robot_holding [StopCmd, DriveCmd 100 (- 90)] [LEFT_UP]) =
     ir_beacon_channel (robot_holding [StopCmd] [LEFT_UP])
 \<and> wheel_diameter (driver (robot_holding [StopCmd, DriveCmd 100 (- 90)] [LEFT_UP])) =
     wheel_diameter (driver (robot_holding [StopCmd] [LEFT_UP]))
 \<and> (\<exists>c. commands (driver (robot_holding [StopCmd, DriveCmd 100 (- 90)] [LEFT_UP])) =
          commands (driver (robot_holding [StopCmd] [LEFT_UP])) @ [c])"
proof -
  have run: "IRBeaconDriverMixin_drive_by_ir_beacon (robot_holding [StopCmd] [LEFT_UP]) 100 90 =
     Inr (robot_holding [StopCmd, DriveCmd 100 (- 90)] [LEFT_UP])"
    by (simp add: IRBeaconDriverMixin_drive_by_ir_beacon_def robot_holding_def Let_def
        DriveBase_drive_def button_set_eq)
  show ?thesis
    using run drive_by_ir_beacon_frame [where step = IRBeaconDriverMixin_drive_by_ir_beacon, OF _ run]
    by simp
qed
text \<open>
  Both symmetries are their own inverses, so a set is the image of another exactly when
  the other is the image of the set.
\<close>

lemma mirror_mirror: "mirror (mirror b) = b"
  by (cases b) simp_all

lemma flip_flip: "flip (flip b) = b"
  by (cases b) simp_all

lemma mirror_image_eq: "mirror ` S = A \<longleftrightarrow> S = mirror ` A"
  by (auto simp: image_iff mirror_mirror intro: rev_bexI [where x = "mirror x" for x])

lemma flip_image_eq: "flip ` S = A \<longleftrightarrow> S = flip ` A"
  by (auto simp: image_iff flip_flip intro: rev_bexI [where x = "flip x" for x])

text \<open>
  C9. Left-right mirror symmetry, for either program's method: when the buttons held in
  one state are the mirror image of those held in another, either both calls send stop, or
  both send a drive command, with the same speed and opposite turn rates.
\<close>

theorem mirror_keeps_speed_and_negates_turn_rate:
  assumes "step = IRBeaconDriverMixin_drive_by_ir_beacon \<or>
           step = RemoteControlledTank_drive_by_ir_beacon"
    and "buttons (ir_sensor self1) (ir_beacon_channel self1) = Inr bs1"
    and "buttons (ir_sensor self2) (ir_beacon_channel self2) = Inr bs2"
    and "set bs2 = mirror ` set bs1"
  shows "(issues (step self1 speed turn_rate) self1 StopCmd
            \<and> issues (step self2 speed turn_rate) self2 StopCmd)
       \<or> (\<exists>v w. issues (step self1 speed turn_rate) self1 (DriveCmd v w)
              \<and> issues (step self2 speed turn_rate) self2 (DriveCmd v (- w)))"
  unfolding beacon_step_issues_iff [OF assms(1,2)] beacon_step_issues_iff [OF assms(1,3)] assms(4)
  by (simp add: mirror_image_eq button_set_eq)

theorem mirror_keeps_speed_and_negates_turn_rate_witness:
  "\<exists>v w. issues (IRBeaconDriverMixin_drive_by_ir_beacon (robot_holding [] [LEFT_DOWN]) 100 90)
            (robot_holding [] [LEFT_DOWN]) (DriveCmd v w)
       \<and> issues (IRBeaconDriverMixin_drive_by_ir_beacon (robot_holding [] [RIGHT_DOWN]) 100 90)
            (robot_holding [] [RIGHT_DOWN]) (DriveCmd v (- w))"
proof -
  have image: "set [RIGHT_DOWN] = mirror ` set [LEFT_DOWN]"
    by simp
  show ?thesis
    using mirror_keeps_speed_and_negates_turn_rate
      [where step = IRBeaconDriverMixin_drive_by_ir_beacon
        and ?self1.0 = "robot_holding [] [LEFT_DOWN]" and ?bs1.0 = "[LEFT_DOWN]"
        and ?self2.0 = "robot_holding [] [RIGHT_DOWN]" and ?bs2.0 = "[RIGHT_DOWN]"
        and speed = 100 and turn_rate = 90, OF _ _ _ image]
    by (simp add: robot_holding_def IRBeaconDriverMixin_issues_iff)
qed

text \<open>
  C10. Up-down flip antisymmetry, for either program's method: when the buttons held in
  one state are the flipped image of those held in another, either both calls send stop, or
  both send a drive command, with opposite speeds and opposite turn rates.
\<close>

theorem flip_negates_speed_and_turn_rate:
  assumes "step = IRBeaconDriverMixin_drive_by_ir_beacon \<or>
           step = RemoteControlledTank_drive_by_ir_beacon"
    and "buttons (ir_sensor self1) (ir_beacon_channel self1) = Inr bs1"
    and "buttons (ir_sensor self2) (ir_beacon_channel self2) = Inr bs2"
    and "set bs2 = flip ` set bs1"
  shows "(issues (step self1 speed turn_rate) self1 StopCmd
            \<and> issues (step self2 speed turn_rate) self2 StopCmd)
       \<or> (\<exists>v w. issues (step self1 speed turn_rate) self1 (DriveCmd v w)
              \<and> issues (step self2 speed turn_rate) self2 (DriveCmd (- v) (- w)))"
  unfolding beacon_step_issues_iff [OF assms(1,2)] beacon_step_issues_iff [OF assms(1,3)] assms(4)
  by (simp add: flip_image_eq button_set_eq)

theorem flip_negates_speed_and_turn_rate_witness:
  "\<exists>v w. issues (RemoteControlledTank_drive_by_ir_beacon (robot_holding [] [LEFT_UP, RIGHT_DOWN]) 300 90)
            (robot_holding [] [LEFT_UP, RIGHT_DOWN]) (DriveCmd v w)
       \<and> issues (RemoteControlledTank_drive_by_ir_beacon (robot_holding [] [LEFT_DOWN, RIGHT_UP]) 300 90)
            (robot_holding [] [LEFT_DOWN, RIGHT_UP]) (DriveCmd (- v) (- w))"
proof -
  have image: "set [LEFT_DOWN, RIGHT_UP] = flip ` set [LEFT_UP, RIGHT_DOWN]"
    by simp
  show ?thesis
    using flip_negates_speed_and_turn_rate
      [where step = RemoteControlledTank_drive_by_ir_beacon
        and ?self1.0 = "robot_holding [] [LEFT_UP, RIGHT_DOWN]" and ?bs1.0 = "[LEFT_UP, RIGHT_DOWN]"
        and ?self2.0 = "robot_holding [] [LEFT_DOWN, RIGHT_UP]" and ?bs2.0 = "[LEFT_DOWN, RIGHT_UP]"
        and speed = 300 and turn_rate = 90, OF _ _ _ image]
    by (simp add: robot_holding_def RemoteControlledTank_issues_iff button_set_eq)
qed




text \<open>
  When no two branches compare with the same button set, evaluating them from the head is
  a lookup, and a lookup does not depend on the order of the branches.
\<close>

lemma first_match_map_of:
  "first_match rows pressed = (case map_of rows pressed of None \<Rightarrow> StopCmd | Some c \<Rightarrow> c)"
  by (induction rows) auto

lemma first_match_reorder:
  assumes "distinct (map fst rows)" and "mset rows' = mset rows"
  shows "first_match rows' pressed = first_match rows pressed"
proof -
  have same_set: "set rows' = set rows"
    using assms(2) by (rule mset_eq_setD)
  have "mset (map fst rows') = mset (map fst rows)"
    using assms(2) by simp
  then have "distinct (map fst rows')"
    using assms(1) mset_eq_imp_distinct_iff by blast
  then have "map_of rows' = map_of rows"
    using assms(1) same_set by (simp add: map_of_inject_set)
  then show ?thesis
    by (simp add: first_match_map_of)
qed

lemma at_most_one_match:
  "distinct (map fst rows) \<Longrightarrow> length (filter (\<lambda>row. fst row = pressed) rows) \<le> 1"
  by (induction rows) (auto simp: filter_empty_conv image_iff)

lemma drive_by_ir_beacon_branches_distinct:
  "distinct (map fst (drive_by_ir_beacon_branches speed turn_rate))"
  by (simp add: drive_by_ir_beacon_branches_def button_set_eq)

lemma beacon_step_issues_first_match:
  assumes "step = IRBeaconDriverMixin_drive_by_ir_beacon \<or>
           step = RemoteControlledTank_drive_by_ir_beacon"
    and "buttons (ir_sensor self) (ir_beacon_channel self) = Inr bs"
  shows "issues (step self speed turn_rate) self
           (first_match (drive_by_ir_beacon_branches speed turn_rate) (set bs))"
  unfolding beacon_step_issues_iff [OF assms]
  by (simp add: drive_by_ir_beacon_branches_def)

text \<open>
  C6. The button sets of the eight branches are pairwise distinct, so at most one branch
  matches any pressed set, and either program's method sends the command that the eight
  branches give when they are evaluated in the order of the source or in any other order.
\<close>

theorem branch_order_is_immaterial:
  assumes "step = IRBeaconDriverMixin_drive_by_ir_beacon \<or>
           step = RemoteControlledTank_drive_by_ir_beacon"
    and "buttons (ir_sensor self) (ir_beacon_channel self) = Inr bs"
    and "mset rows = mset (drive_by_ir_beacon_branches speed turn_rate)"
  shows "distinct (map fst (drive_by_ir_beacon_branches speed turn_rate))
       \<and> length (filter (\<lambda>row. fst row = set bs) (drive_by_ir_beacon_branches speed turn_rate)) \<le> 1
       \<and> issues (step self speed turn_rate) self
            (first_match (drive_by_ir_beacon_branches speed turn_rate) (set bs))
       \<and> first_match rows (set bs) =
            first_match (drive_by_ir_beacon_branches speed turn_rate) (set bs)
       \<and> issues (step self speed turn_rate) self (first_match rows (set bs))"
  using drive_by_ir_beacon_branches_distinct [of speed turn_rate]
    at_most_one_match [OF drive_by_ir_beacon_branches_distinct, of "set bs" speed turn_rate]
    beacon_step_issues_first_match [OF assms(1,2), of speed turn_rate]
    first_match_reorder [OF drive_by_ir_beacon_branches_distinct assms(3), of "set bs"]
  by simp

theorem branch_order_is_immaterial_witness:
  "mset (rev (drive_by_ir_beacon_branches 100 90)) = mset (drive_by_ir_beacon_branches 100 90)
 \<and> first_match (rev (drive_by_ir_beacon_branches 100 90)) (set [RIGHT_DOWN, LEFT_UP]) =
     DriveCmd 0 (- 90)
 \<and> issues (IRBeaconDriverMixin_drive_by_ir_beacon (robot_holding [] [RIGHT_DOWN, LEFT_UP]) 100 90)
     (robot_holding [] [RIGHT_DOWN, LEFT_UP])
     (first_match (rev (drive_by_ir_beacon_branches 100 90)) (set [RIGHT_DOWN, LEFT_UP]))"
proof -
  have reordered:
    "mset (rev (drive_by_ir_beacon_branches 100 90)) = mset (drive_by_ir_beacon_branches 100 90)"
    by simp
  have held: "buttons (ir_sensor (robot_holding [] [RIGHT_DOWN, LEFT_UP]))
      (ir_beacon_channel (robot_holding [] [RIGHT_DOWN, LEFT_UP])) = Inr [RIGHT_DOWN, LEFT_UP]"
    by (simp add: robot_holding_def)
  have evaluated:
    "first_match (drive_by_ir_beacon_branches 100 90) (set [RIGHT_DOWN, LEFT_UP]) = DriveCmd 0 (- 90)"
    by (simp add: drive_by_ir_beacon_branches_def button_set_eq)
  show ?thesis
    using reordered evaluated
      branch_order_is_immaterial [where step = IRBeaconDriverMixin_drive_by_ir_beacon,
        OF _ held reordered]
    by simp
qed

text \<open>Every error of the binding of a call is a \<^verbatim>\<open>TypeError\<close>.\<close>

lemma bind_positional_error: "bind_positional ps vs = Inl e \<Longrightarrow> e = TypeError"
  by (induction ps vs arbitrary: e rule: bind_positional.induct) (auto split: sum.splits)

lemma bind_keywords_error: "bind_keywords ps bound kws = Inl e \<Longrightarrow> e = TypeError"
  by (induction ps bound kws rule: bind_keywords.induct) (auto split: if_splits)

lemma fill_defaults_error: "fill_defaults ps bound = Inl e \<Longrightarrow> e = TypeError"
  by (induction ps bound arbitrary: e rule: fill_defaults.induct)
    (auto split: sum.splits option.splits)

lemma call_bind_error: "call_bind ps args kwargs = Inl e \<Longrightarrow> e = TypeError"
  by (auto simp: call_bind_def split: sum.splits
      dest: bind_positional_error bind_keywords_error fill_defaults_error)

text \<open>
  Two positional arguments fill \<^verbatim>\<open>self\<close> and \<^verbatim>\<open>wheel_diameter\<close>; the keyword
  \<^verbatim>\<open>wheel_diameter\<close> is then a second value for the same parameter.
\<close>

lemma RemoteControlledTank_init_two_positional:
  "RemoteControlledTank_init remote [v1, v2] ((''wheel_diameter'', w) # kwargs) = Inl TypeError"
  by (simp add: RemoteControlledTank_init_def call_bind_def RemoteControlledTank_init_parameters_def)

text \<open>With \<^verbatim>\<open>self\<close> as its one positional argument the same call builds the tank.\<close>

lemma RemoteControlledTank_init_one_positional:
  "RemoteControlledTank_init remote [PyInstance]
     [(''wheel_diameter'', Gripp3r_WHEEL_DIAMETER), (''axle_track'', Gripp3r_AXLE_TRACK),
      (''left_motor_port'', PyPort Port_B), (''right_motor_port'', PyPort Port_C),
      (''ir_sensor_port'', PyPort Port_S4), (''ir_beacon_channel'', PyInt 1)] =
   Inr \<lparr>driver =
          \<lparr>left_motor = \<lparr>port = Port_B, positive_direction = CLOCKWISE\<rparr>,
           right_motor = \<lparr>port = Port_C, positive_direction = CLOCKWISE\<rparr>,
           wheel_diameter = 26, axle_track = 102, commands = []\<rparr>,
        ir_sensor = \<lparr>sensor_port = Port_S4, buttons = remote\<rparr>,
        ir_beacon_channel = 1\<rparr>"
  by (simp add: RemoteControlledTank_init_def call_bind_def RemoteControlledTank_init_parameters_def
      DriveBase_new_def Gripp3r_WHEEL_DIAMETER_def Gripp3r_AXLE_TRACK_def)

text \<open>The arguments of \<^verbatim>\<open>Gripp3r()\<close> themselves fit the parameters of \<^verbatim>\<open>Gripp3r.__init__\<close>.\<close>

lemma Gripp3r_init_binds_defaults:
  "\<exists>env. call_bind Gripp3r_init_parameters [PyInstance] [] = Inr env"
  by (simp add: call_bind_def Gripp3r_init_parameters_def)

text \<open>
  C8. Constructing a \<^verbatim>\<open>Gripp3r\<close> raises \<^verbatim>\<open>TypeError\<close> for every choice of positional and
  keyword arguments: either they do not fit \<^verbatim>\<open>Gripp3r.__init__\<close>, or the call of the
  parent initializer passes \<^verbatim>\<open>self\<close> twice and so gives \<^verbatim>\<open>wheel_diameter\<close> two values.
  The script therefore ends with that error and never runs a round of the main loop.
\<close>

theorem Gripp3r_construction_raises_TypeError:
  "Gripp3r_new remote args kwargs = Inl TypeError
 \<and> Gripp3r_script remote readings = Inl TypeError"
proof -
  have new: "Gripp3r_new remote args kwargs = Inl TypeError" for args kwargs
  proof (cases "call_bind Gripp3r_init_parameters (PyInstance # args) kwargs")
    case (Inl e)
    then show ?thesis
      using call_bind_error [OF Inl] by (simp add: Gripp3r_new_def Gripp3r_init_def)
  next
    case (Inr env)
    then show ?thesis
      by (simp add: Gripp3r_new_def Gripp3r_init_def RemoteControlledTank_init_two_positional)
  qed
  show ?thesis
    by (simp add: new Gripp3r_script_def)
qed

end
